theory Spec2Isabelle
  imports Complex_Main "HOL-Library.Sublist"
begin

section \<open>JavaScript numbers\<close>

text \<open>
  The script converts its strings to numbers with \<open>parseFloat\<close>, computes with
  \<open>+ - * / %\<close> and \<open>Math.round\<close>, and converts back with \<open>toString\<close>.  These are
  operations of the language, on IEEE 754 double precision values.  A number is
  \<open>NaN\<close>, an infinity with its sign, or a finite value given by its sign
  (\<open>True\<close> for negative) and its magnitude, an exact rational; \<open>Fin True 0\<close> is the
  negative zero.  Every operation computes the exact rational result and rounds it
  to the nearest double, ties to the even significand.
\<close>

datatype number = NaN | Infty bool | Fin bool rat

function bit_length :: "int \<Rightarrow> int" where
  "bit_length n = (if n \<le> 0 then 0 else 1 + bit_length (n div 2))"
  by pat_completeness auto
termination
  by (relation "measure nat") auto

declare bit_length.simps [simp del]

definition digit_char :: "int \<Rightarrow> char" where
  "digit_char d = ''0123456789'' ! nat d"

text \<open>The decimal digits of a non-negative integer, most significant first.\<close>

function digits_of :: "int \<Rightarrow> string" where
  "digits_of n =
     (if n < 10 then [digit_char n] else digits_of (n div 10) @ [digit_char (n mod 10)])"
  by pat_completeness auto
termination
  by (relation "measure nat") auto

declare digits_of.simps [simp del]

text \<open>\<open>power_of b q\<close> is \<open>b\<close> to the power \<open>q\<close>, for an integer \<open>b > 0\<close> and any integer \<open>q\<close>.\<close>

definition power_of :: "int \<Rightarrow> int \<Rightarrow> rat" where
  "power_of b q = (if 0 \<le> q then of_int (b ^ nat q) else 1 / of_int (b ^ nat (- q)))"

text \<open>\<open>ilog2 m\<close> is the integer \<open>e\<close> with \<open>2^e \<le> m < 2^(e+1)\<close>, for \<open>m > 0\<close>; \<open>ilog10\<close> likewise.\<close>

definition ilog2 :: "rat \<Rightarrow> int" where
  "ilog2 m =
     (if 1 \<le> m then bit_length \<lfloor>m\<rfloor> - 1
      else let t = bit_length \<lfloor>1 / m\<rfloor> - 1
           in if m = power_of 2 (- t) then - t else - t - 1)"

definition ilog10 :: "rat \<Rightarrow> int" where
  "ilog10 m =
     (if 1 \<le> m then int (length (digits_of \<lfloor>m\<rfloor>)) - 1
      else let t = int (length (digits_of \<lfloor>1 / m\<rfloor>)) - 1
           in if m = power_of 10 (- t) then - t else - t - 1)"

definition round_half_even :: "rat \<Rightarrow> int" where
  "round_half_even q =
     (let f = \<lfloor>q\<rfloor>; r = q - of_int f
      in if r < 1 / 2 then f else if 1 / 2 < r then f + 1
         else if even f then f else f + 1)"

text \<open>
  Rounding a magnitude \<open>m \<ge> 0\<close> to a double: 53 significant bits, the least exponent
  of a normal number is \<open>-1022\<close> (below it the spacing stays \<open>2^-1074\<close>), and a result
  of \<open>2^1024\<close> or more is an infinity.
\<close>

definition fround :: "bool \<Rightarrow> rat \<Rightarrow> number" where
  "fround neg m =
     (if m = 0 then Fin neg 0
      else
        let e = ilog2 m;
            q = max e (- 1022) - 52;
            v = of_int (round_half_even (m / power_of 2 q)) * power_of 2 q
        in if of_int (2 ^ 1024) \<le> v then Infty neg else Fin neg v)"

text \<open>\<open>x === 0\<close>: true of both zeros, false of \<open>NaN\<close>.\<close>

definition strict_eq_zero :: "number \<Rightarrow> bool" where
  "strict_eq_zero x = (case x of Fin neg m \<Rightarrow> m = 0 | _ \<Rightarrow> False)"

definition signed :: "bool \<Rightarrow> rat \<Rightarrow> rat" where
  "signed neg m = (if neg then - m else m)"

definition num_neg :: "number \<Rightarrow> number" where
  "num_neg x =
     (case x of NaN \<Rightarrow> NaN | Infty neg \<Rightarrow> Infty (\<not> neg) | Fin neg m \<Rightarrow> Fin (\<not> neg) m)"

text \<open>\<open>x + y\<close>.  An exact sum of zero is \<open>+0\<close> unless both operands are negative zeros.\<close>

fun num_add :: "number \<Rightarrow> number \<Rightarrow> number" where
  "num_add NaN y = NaN"
| "num_add x NaN = NaN"
| "num_add (Infty a) (Infty b) = (if a = b then Infty a else NaN)"
| "num_add (Infty a) (Fin b m) = Infty a"
| "num_add (Fin a m) (Infty b) = Infty b"
| "num_add (Fin a m) (Fin b k) =
     (let r = signed a m + signed b k
      in if r = 0 then Fin (a \<and> b) 0 else fround (r < 0) \<bar>r\<bar>)"

text \<open>\<open>x - y\<close> is \<open>x + (-y)\<close>.\<close>

definition num_sub :: "number \<Rightarrow> number \<Rightarrow> number" where
  "num_sub x y = num_add x (num_neg y)"

text \<open>\<open>x * y\<close> and \<open>x / y\<close>: the sign of the result is negative when the signs differ.\<close>

fun num_mul :: "number \<Rightarrow> number \<Rightarrow> number" where
  "num_mul NaN y = NaN"
| "num_mul x NaN = NaN"
| "num_mul (Infty a) (Infty b) = Infty (a \<noteq> b)"
| "num_mul (Infty a) (Fin b m) = (if m = 0 then NaN else Infty (a \<noteq> b))"
| "num_mul (Fin a m) (Infty b) = (if m = 0 then NaN else Infty (a \<noteq> b))"
| "num_mul (Fin a m) (Fin b k) = fround (a \<noteq> b) (m * k)"

fun num_div :: "number \<Rightarrow> number \<Rightarrow> number" where
  "num_div NaN y = NaN"
| "num_div x NaN = NaN"
| "num_div (Infty a) (Infty b) = NaN"
| "num_div (Infty a) (Fin b m) = Infty (a \<noteq> b)"
| "num_div (Fin a m) (Infty b) = Fin (a \<noteq> b) 0"
| "num_div (Fin a m) (Fin b k) =
     (if k = 0 then (if m = 0 then NaN else Infty (a \<noteq> b))
      else fround (a \<noteq> b) (m / k))"

text \<open>
  \<open>x % y\<close>: the remainder of the truncating division, with the sign of the dividend;
  it is exact.
\<close>

fun num_rem :: "number \<Rightarrow> number \<Rightarrow> number" where
  "num_rem NaN y = NaN"
| "num_rem x NaN = NaN"
| "num_rem (Infty a) y = NaN"
| "num_rem (Fin a m) (Infty b) = Fin a m"
| "num_rem (Fin a m) (Fin b k) =
     (if k = 0 then NaN
      else if m = 0 then Fin a m
      else Fin a (m - k * of_int \<lfloor>m / k\<rfloor>))"

text \<open>
  \<open>Math.round(x)\<close>: the nearest integer, a tie going up; a result of zero keeps the
  sign of \<open>x\<close>.
\<close>

definition Math_round :: "number \<Rightarrow> number" where
  "Math_round x =
     (case x of
        NaN \<Rightarrow> NaN
      | Infty neg \<Rightarrow> Infty neg
      | Fin neg m \<Rightarrow>
          let r = \<lfloor>signed neg m + 1 / 2\<rfloor>
          in if r = 0 then Fin neg 0 else Fin (r < 0) (of_int \<bar>r\<bar>))"

subsection \<open>Number to string\<close>

text \<open>
  \<open>x.toString()\<close> writes a finite non-zero magnitude \<open>m\<close> with the least number \<open>k\<close>
  of significant digits \<open>s\<close> such that \<open>s * 10^(n - k)\<close> rounds to \<open>m\<close>; of two such
  \<open>s\<close> it takes the one nearer to \<open>m\<close> (the even one at a tie).  \<open>candidate m n k\<close>
  tries the two integers around \<open>m / 10^(n - k)\<close>; seventeen digits always suffice
  for a double, so the search stops there with the nearest integer.
\<close>

definition candidate :: "rat \<Rightarrow> int \<Rightarrow> nat \<Rightarrow> (int \<times> int) option" where
  "candidate m n k =
     (let u = power_of 10 (n - int k);
          scaled = m / u;
          lo = \<lfloor>scaled\<rfloor>;
          hi = lo + 1;
          ok_lo = (fround False (of_int lo * u) = Fin False m);
          ok_hi = (fround False (of_int hi * u) = Fin False m);
          d_lo = scaled - of_int lo;
          d_hi = of_int hi - scaled;
          up = (if ok_lo then ok_hi \<and> (d_hi < d_lo \<or> (d_hi = d_lo \<and> even hi)) else ok_hi)
      in if up then (if hi = 10 ^ k then Some (10 ^ (k - 1), n + 1) else Some (hi, n))
         else if ok_lo then Some (lo, n)
         else None)"

fun shortest_from :: "rat \<Rightarrow> int \<Rightarrow> nat \<Rightarrow> nat \<Rightarrow> int \<times> int" where
  "shortest_from m n 0 k = (round_half_even (m / power_of 10 (n - int k)), n)"
| "shortest_from m n (Suc fuel) k =
     (case candidate m n k of
        Some sn \<Rightarrow> sn
      | None \<Rightarrow> shortest_from m n fuel (Suc k))"

definition shortest :: "rat \<Rightarrow> int \<times> int" where
  "shortest m = shortest_from m (ilog10 m + 1) 16 1"

text \<open>
  The layout of the digits \<open>ds\<close> for the decimal exponent \<open>n\<close>: plain decimal
  notation for \<open>-5 \<le> n \<le> 21\<close>, exponent notation otherwise.
\<close>

definition layout :: "string \<Rightarrow> int \<Rightarrow> string" where
  "layout ds n =
     (let k = int (length ds)
      in if - 5 \<le> n \<and> n \<le> 21 then
           (if k \<le> n then ds @ replicate (nat (n - k)) CHR ''0''
            else if 0 < n then take (nat n) ds @ ''.'' @ drop (nat n) ds
            else ''0.'' @ replicate (nat (- n)) CHR ''0'' @ ds)
         else
           (let exponentSign = (if n < 0 then ''-'' else ''+'');
                ex = digits_of \<bar>n - 1\<bar>
            in if k = 1 then ds @ ''e'' @ exponentSign @ ex
               else take 1 ds @ ''.'' @ drop 1 ds @ ''e'' @ exponentSign @ ex))"

definition toString :: "number \<Rightarrow> string" where
  "toString x =
     (case x of
        NaN \<Rightarrow> ''NaN''
      | Infty neg \<Rightarrow> (if neg then ''-Infinity'' else ''Infinity'')
      | Fin neg m \<Rightarrow>
          if m = 0 then ''0''
          else (if neg then ''-'' else []) @
               (case shortest m of (s, n) \<Rightarrow> layout (digits_of s) n))"

subsection \<open>String to number\<close>

text \<open>
  \<open>parseFloat(str)\<close> skips leading white space and reads the longest prefix that is a
  decimal literal: an optional sign, then \<open>Infinity\<close> or digits with an optional
  fraction and an optional exponent.  With no such prefix the result is \<open>NaN\<close>.
  Characters are the code units below 256.
\<close>

definition is_space :: "char \<Rightarrow> bool" where
  "is_space c =
     (c \<in> set [CHR 0x09, CHR 0x0A, CHR 0x0B, CHR 0x0C, CHR 0x0D, CHR 0x20, CHR 0xA0])"

definition digit_chars :: "char set" where
  "digit_chars = set ''0123456789''"

definition is_digit :: "char \<Rightarrow> bool" where
  "is_digit c = (c \<in> digit_chars)"

definition digit_value :: "char \<Rightarrow> int" where
  "digit_value c = of_char c - 48"

definition int_of_digits :: "string \<Rightarrow> int" where
  "int_of_digits ds = foldl (\<lambda>a c. 10 * a + digit_value c) 0 ds"

definition exponent_part :: "string \<Rightarrow> int" where
  "exponent_part r =
     (case r of
        [] \<Rightarrow> 0
      | c # r1 \<Rightarrow>
          if c = CHR ''e'' \<or> c = CHR ''E'' then
            (case r1 of
               [] \<Rightarrow> 0
             | c1 # r2 \<Rightarrow>
                 if c1 = CHR ''-'' then - int_of_digits (takeWhile is_digit r2)
                 else if c1 = CHR ''+'' then int_of_digits (takeWhile is_digit r2)
                 else int_of_digits (takeWhile is_digit r1))
          else 0)"

definition parseFloat :: "string \<Rightarrow> number" where
  "parseFloat str =
     (let t = dropWhile is_space str;
          neg = (case t of c # r \<Rightarrow> c = CHR ''-'' | [] \<Rightarrow> False);
          u = (case t of
                 c # r \<Rightarrow> if c = CHR ''-'' \<or> c = CHR ''+'' then r else t
               | [] \<Rightarrow> t)
      in if prefix ''Infinity'' u then Infty neg
         else
           let ip = takeWhile is_digit u;
               r1 = dropWhile is_digit u;
               dot = (case r1 of c # r \<Rightarrow> c = CHR ''.'' | [] \<Rightarrow> False);
               fp = (if dot then takeWhile is_digit (tl r1) else []);
               r2 = (if dot then dropWhile is_digit (tl r1) else r1)
           in if ip = [] \<and> fp = [] then NaN
              else fround neg (of_int (int_of_digits (ip @ fp))
                               * power_of 10 (exponent_part r2 - int (length fp))))"

section \<open>The calculator of script.js\<close>

text \<open>
  The script keeps four global variables and writes to one text field.  The model is a
  record of the four variables plus the text field; every handler of the script is a
  function from the record to the updated record.

  \<^item> \<open>currentInput\<close>, \<open>previousInput\<close>, \<open>operator\<close> are JavaScript strings, here
    \<^typ>\<open>string\<close>; the empty string is what the script tests with \<open>=== ''\<close>.
  \<^item> \<open>display\<close> is \<open>display.value\<close>, the content of the text field.
  \<^item> \<open>written\<close> is the history of the calls of \<open>updateDisplay\<close>, oldest first: the
    values the text field has been given.  The script has no such variable; it records
    the output effect, so that "emits" and "emits nothing" can be stated.
\<close>

record calc =
  currentInput :: string
  previousInput :: string
  operator :: string
  shouldResetDisplay :: bool
  display :: string
  written :: "string list"

text \<open>The values of the four variables at lines 4 to 7, before anything is displayed.\<close>

definition initial :: calc where
  "initial = \<lparr>currentInput = [], previousInput = [], operator = [],
     shouldResetDisplay = False, display = [], written = []\<rparr>"

definition updateDisplay :: "string \<Rightarrow> calc \<Rightarrow> calc" where
  "updateDisplay v s = s\<lparr>display := v, written := written s @ [v]\<rparr>"

subsection \<open>Digits, decimal point, sign, clear, backspace\<close>

text \<open>\<open>appendNumber(number)\<close>, lines 44 to 64.  The argument is a string, as in the script.\<close>

definition appendNumber :: "string \<Rightarrow> calc \<Rightarrow> calc" where
  "appendNumber number s0 =
     (let s = (if shouldResetDisplay s0
               then s0\<lparr>currentInput := [], shouldResetDisplay := False\<rparr>
               else s0)
      in if currentInput s = ''0'' \<and> number = ''0'' then s
         else
           let s' = (if currentInput s = ''0'' \<and> number \<noteq> ''0''
                     then s\<lparr>currentInput := number\<rparr>
                     else s\<lparr>currentInput := currentInput s @ number\<rparr>)
           in updateDisplay (currentInput s') s')"

text \<open>\<open>appendDecimal()\<close>, lines 69 to 86.\<close>

definition appendDecimal :: "calc \<Rightarrow> calc" where
  "appendDecimal s0 =
     (let s1 = (if shouldResetDisplay s0
                then s0\<lparr>currentInput := ''0'', shouldResetDisplay := False\<rparr>
                else s0);
          s2 = (if currentInput s1 = [] then s1\<lparr>currentInput := ''0''\<rparr> else s1)
      in if CHR ''.'' \<notin> set (currentInput s2)
         then (let s3 = s2\<lparr>currentInput := currentInput s2 @ ''.''\<rparr>
               in updateDisplay (currentInput s3) s3)
         else s2)"

text \<open>\<open>toggleSign()\<close>, lines 197 to 209: \<open>startsWith('-')\<close> and \<open>substring(1)\<close>.\<close>

definition toggleSign :: "calc \<Rightarrow> calc" where
  "toggleSign s =
     (if currentInput s = [] \<or> currentInput s = ''0'' then s
      else
        let s' = (if prefix ''-'' (currentInput s)
                  then s\<lparr>currentInput := drop 1 (currentInput s)\<rparr>
                  else s\<lparr>currentInput := ''-'' @ currentInput s\<rparr>)
        in updateDisplay (currentInput s') s')"

text \<open>\<open>clearAll()\<close>, lines 214 to 220.\<close>

definition clearAll :: "calc \<Rightarrow> calc" where
  "clearAll s =
     updateDisplay ''0''
       (s\<lparr>currentInput := [], previousInput := [], operator := [],
          shouldResetDisplay := False\<rparr>)"

text \<open>
  The \<open>Backspace\<close> branch of \<open>handleKeyboardInput\<close>, lines 245 to 256;
  \<open>slice(0, -1)\<close> drops the last character.
\<close>

definition backspace :: "calc \<Rightarrow> calc" where
  "backspace s =
     (if length (currentInput s) > 0
      then
        let s1 = s\<lparr>currentInput := butlast (currentInput s)\<rparr>
        in if currentInput s1 = [] \<or> currentInput s1 = ''-''
           then (updateDisplay ''0'' s1)\<lparr>currentInput := []\<rparr>
           else updateDisplay (currentInput s1) s1
      else s)"

subsection \<open>Equals, operators, square\<close>

text \<open>
  Lines 164 to 172 of \<open>calculateResult\<close>: the result is rounded with
  \<open>Math.round(result * 100000000) / 100000000\<close>, shown and stored.
\<close>

definition round8 :: "number \<Rightarrow> number" where
  "round8 result =
     num_div (Math_round (num_mul result (Fin False 100000000))) (Fin False 100000000)"

definition store_result :: "number \<Rightarrow> calc \<Rightarrow> calc" where
  "store_result result0 s =
     (let result = round8 result0;
          s1 = updateDisplay (toString result) s
      in s1\<lparr>currentInput := toString result, previousInput := [], operator := [],
            shouldResetDisplay := True\<rparr>)"

text \<open>
  \<open>calculateResult()\<close>, lines 121 to 173.  The \<open>switch\<close> on the operator string
  keeps its order and its \<open>default\<close>, which returns without any change.
\<close>

definition calculateResult :: "calc \<Rightarrow> calc" where
  "calculateResult s =
     (if previousInput s = [] \<or> currentInput s = [] \<or> operator s = [] then s
      else
        let prev = parseFloat (previousInput s);
            current = parseFloat (currentInput s)
        in if operator s = ''+'' then store_result (num_add prev current) s
           else if operator s = ''-'' then store_result (num_sub prev current) s
           else if operator s = ''*'' then store_result (num_mul prev current) s
           else if operator s = ''/'' then
             (if strict_eq_zero current then clearAll (updateDisplay ''Error'' s)
              else store_result (num_div prev current) s)
           else if operator s = ''%'' then
             (if strict_eq_zero current then clearAll (updateDisplay ''Error'' s)
              else store_result (num_rem prev current) s)
           else s)"

text \<open>\<open>appendOperator(op)\<close>, lines 92 to 116.\<close>

definition appendOperator :: "string \<Rightarrow> calc \<Rightarrow> calc" where
  "appendOperator op s0 =
     (let s1 = (if currentInput s0 \<noteq> [] \<and> previousInput s0 \<noteq> [] \<and> operator s0 \<noteq> []
                then calculateResult s0 else s0);
          s2 = (if currentInput s1 = [] \<and> previousInput s1 \<noteq> []
                then s1\<lparr>currentInput := previousInput s1\<rparr> else s1)
      in if currentInput s2 = [] then s2
         else
           let s3 = s2\<lparr>previousInput := currentInput s2, operator := op,
                       currentInput := [], shouldResetDisplay := True\<rparr>
           in updateDisplay (previousInput s3) s3)"

text \<open>\<open>calculateSquare()\<close>, lines 178 to 192.\<close>

definition calculateSquare :: "calc \<Rightarrow> calc" where
  "calculateSquare s =
     (if currentInput s = [] then s
      else
        let n = parseFloat (currentInput s);
            result = num_mul n n;
            formattedResult = round8 result;
            s1 = updateDisplay (toString formattedResult) s
        in s1\<lparr>currentInput := toString formattedResult, shouldResetDisplay := True\<rparr>)"

subsection \<open>The keyboard and the page\<close>

text \<open>\<open>a.includes(b)\<close>: \<open>b\<close> occurs in \<open>a\<close> as a run of consecutive characters.\<close>

fun str_includes :: "string \<Rightarrow> string \<Rightarrow> bool" where
  "str_includes [] key = (key = [])"
| "str_includes (c # cs) key = (prefix key (c # cs) \<or> str_includes cs key)"

text \<open>
  \<open>handleKeyboardInput(event)\<close>, lines 226 to 257, as a function of \<open>event.key\<close>;
  \<open>preventDefault\<close> does not touch the calculator.
\<close>

definition handleKeyboardInput :: "string \<Rightarrow> calc \<Rightarrow> calc" where
  "handleKeyboardInput key s =
     (if str_includes ''0123456789'' key then appendNumber key s
      else if key = ''.'' then appendDecimal s
      else if str_includes ''+-*/%'' key then appendOperator key s
      else if key = ''='' \<or> key = ''Enter'' then calculateResult s
      else if key = ''Escape'' then clearAll s
      else if key = ''Backspace'' then backspace s
      else s)"

text \<open>
  The eight operations a user can start, from a button or a key.  A digit press
  carries its character; an operator press carries the string given to
  \<open>appendOperator\<close>.
\<close>

datatype press =
  Digit char | Decimal | Operator string | Equals | Square | Sign | Clear | Backspace

fun handle :: "press \<Rightarrow> calc \<Rightarrow> calc" where
  "handle (Digit d) s = appendNumber [d] s"
| "handle Decimal s = appendDecimal s"
| "handle (Operator op) s = appendOperator op s"
| "handle Equals s = calculateResult s"
| "handle Square s = calculateSquare s"
| "handle Sign s = toggleSign s"
| "handle Clear s = clearAll s"
| "handle Backspace s = backspace s"

text \<open>A digit press carries one of the characters \<open>'0'\<close> to \<open>'9'\<close>.\<close>

fun valid_press :: "press \<Rightarrow> bool" where
  "valid_press (Digit d) = (d \<in> digit_chars)"
| "valid_press p = True"

text \<open>The state after a sequence of presses, the first press first.\<close>

definition run :: "press list \<Rightarrow> calc \<Rightarrow> calc" where
  "run ps s = foldl (\<lambda>s p. handle p s) s ps"

section \<open>Notions used by the properties\<close>

text \<open>The number of decimal points in a string, and the number of its leading minus signs.\<close>

definition dots :: "string \<Rightarrow> nat" where
  "dots str = length (filter (\<lambda>c. c = CHR ''.'') str)"

definition leading_minuses :: "string \<Rightarrow> nat" where
  "leading_minuses str = length (takeWhile (\<lambda>c. c = CHR ''-'') str)"

text \<open>
  The inductive form of the entry invariant: at most one decimal point and no two
  leading minus signs, for the entry and for the stored operand, which
  \<open>appendOperator\<close> can copy back into the entry.
\<close>

definition well_formed :: "string \<Rightarrow> bool" where
  "well_formed str = (dots str \<le> 1 \<and> \<not> prefix ''--'' str)"

definition entry_ok :: "calc \<Rightarrow> bool" where
  "entry_ok s = (well_formed (currentInput s) \<and> well_formed (previousInput s))"

text \<open>An operator is stored only together with an operand.\<close>

definition operator_ok :: "calc \<Rightarrow> bool" where
  "operator_ok s = (operator s \<noteq> [] \<longrightarrow> previousInput s \<noteq> [])"

text \<open>
  The value that the \<open>switch\<close> of \<open>calculateResult\<close> assigns to \<open>result\<close>, when it
  assigns one: none for a zero divisor and none for an unknown operator.
\<close>

definition computed :: "string \<Rightarrow> number \<Rightarrow> number \<Rightarrow> number option" where
  "computed op prev current =
     (if op = ''+'' then Some (num_add prev current)
      else if op = ''-'' then Some (num_sub prev current)
      else if op = ''*'' then Some (num_mul prev current)
      else if op = ''/'' then
        (if strict_eq_zero current then None else Some (num_div prev current))
      else if op = ''%'' then
        (if strict_eq_zero current then None else Some (num_rem prev current))
      else None)"

text \<open>Sample states and a sample sequence of presses.\<close>

definition five_entered :: calc where
  "five_entered = initial\<lparr>currentInput := ''5''\<rparr>"

definition five_by_zero :: calc where
  "five_by_zero = initial\<lparr>previousInput := ''5'', operator := ''/'', currentInput := ''0''\<rparr>"

definition seven_mod_zero :: calc where
  "seven_mod_zero =
     initial\<lparr>previousInput := ''7'', operator := ''%'', currentInput := ''0.0''\<rparr>"


definition twelve_times_three :: calc where
  "twelve_times_three =
     initial\<lparr>previousInput := ''12'', operator := ''*'', currentInput := ''3''\<rparr>"

definition sample_presses :: "press list" where
  "sample_presses =
     [Digit CHR ''1'', Decimal, Digit CHR ''5'', Sign, Operator ''*'', Digit CHR ''2'', Equals]"

section \<open>The strings that \<open>toString\<close> produces\<close>

lemma digit_char_is_digit: "d < 10 \<Longrightarrow> is_digit (digit_char d)"
proof -
  assume "d < 10"
  then have "nat d < length ''0123456789''" by simp
  then have "''0123456789'' ! nat d \<in> set ''0123456789''" by (rule nth_mem)
  then show ?thesis
    by (simp only: digit_char_def is_digit_def digit_chars_def)
qed

lemma digits_of_digits: "\<forall>c \<in> set (digits_of n). is_digit c"
proof (induction n rule: digits_of.induct)
  case (1 n)
  show ?case
  proof (cases "n < 10")
    case True
    then show ?thesis
      by (subst digits_of.simps) (simp add: digit_char_is_digit)
  next
    case False
    have "n mod 10 < 10" by simp
    with False 1 show ?thesis
      by (subst digits_of.simps) (simp add: digit_char_is_digit)
  qed
qed

lemma digits_of_not_empty: "digits_of n \<noteq> []"
  by (subst digits_of.simps) simp

lemma dots_digits: "\<forall>c \<in> set ds. is_digit c \<Longrightarrow> dots ds = 0"
  by (induction ds) (auto simp: dots_def is_digit_def digit_chars_def)

lemma dots_append: "dots (xs @ ys) = dots xs + dots ys"
  by (simp add: dots_def)

lemma dots_replicate_zero: "dots (replicate k CHR ''0'') = 0"
  by (simp add: dots_def)

lemma digits_take: "\<forall>c \<in> set ds. is_digit c \<Longrightarrow> \<forall>c \<in> set (take k ds). is_digit c"
  by (meson in_set_takeD)

lemma digits_drop: "\<forall>c \<in> set ds. is_digit c \<Longrightarrow> \<forall>c \<in> set (drop k ds). is_digit c"
  by (meson in_set_dropD)

lemma dots_layout:
  assumes "\<forall>c \<in> set ds. is_digit c"
  shows "dots (layout ds n) \<le> 1"
proof -
  have ex: "dots (digits_of \<bar>n - 1\<bar>) = 0"
    by (rule dots_digits) (rule digits_of_digits)
  have d: "dots ds = 0" "dots (take k ds) = 0" "dots (drop k ds) = 0" for k
    by (rule dots_digits, rule assms)
      (rule dots_digits, rule digits_take, rule assms,
       rule dots_digits, rule digits_drop, rule assms)
  have lit: "dots ''.'' = 1" "dots ''0.'' = 1" "dots ''e'' = 0" "dots ''-'' = 0"
    "dots ''+'' = 0" "dots [] = 0"
    by (simp_all add: dots_def)
  show ?thesis
    unfolding layout_def Let_def
    by (simp add: dots_append d ex lit dots_replicate_zero del: append.simps One_nat_def)
qed

lemma head_layout:
  assumes "\<forall>c \<in> set ds. is_digit c" and "ds \<noteq> []"
  shows "\<exists>c rest. layout ds n = c # rest \<and> is_digit c"
proof -
  obtain c cs where ds: "ds = c # cs" using assms(2) by (cases ds) auto
  then have c: "is_digit c" using assms(1) by simp
  have z: "is_digit CHR ''0''" by (simp add: is_digit_def digit_chars_def)
  have t: "0 < n \<Longrightarrow> take (nat n) (c # cs) = c # take (nat n - 1) cs"
    by (cases "nat n") auto
  show ?thesis
    unfolding layout_def Let_def ds
    using c z t by auto
qed

lemma well_formed_toString: "well_formed (toString x)"
proof (cases x)
  case NaN
  then show ?thesis by (simp add: toString_def well_formed_def dots_def)
next
  case (Infty neg)
  then show ?thesis by (simp add: toString_def well_formed_def dots_def)
next
  case (Fin neg m)
  show ?thesis
  proof (cases "m = 0")
    case True
    with Fin show ?thesis by (simp add: toString_def well_formed_def dots_def)
  next
    case False
    obtain s n where sn: "shortest m = (s, n)" by (cases "shortest m")
    let ?body = "layout (digits_of s) n"
    have dg: "\<forall>c \<in> set (digits_of s). is_digit c" by (rule digits_of_digits)
    have d: "dots ?body \<le> 1" using dg by (rule dots_layout)
    obtain c rest where h: "?body = c # rest" "is_digit c"
      using head_layout [OF dg digits_of_not_empty] by blast
    have cm: "c \<noteq> CHR ''-''" using h(2) by (auto simp: is_digit_def digit_chars_def)
    have ts: "toString x = (if neg then ''-'' else []) @ ?body"
      using Fin False sn by (simp add: toString_def)
    show ?thesis
      unfolding ts well_formed_def using d cm h(1)
      by (auto simp: dots_def)
  qed
qed

section \<open>The entry stays well formed\<close>

lemma leading_minuses_prefix: "(leading_minuses str \<le> 1) = (\<not> prefix ''--'' str)"
proof (cases str)
  case Nil
  then show ?thesis by (simp add: leading_minuses_def)
next
  case (Cons a as)
  then show ?thesis by (cases as) (auto simp: leading_minuses_def)
qed

lemma well_formed_simple [simp]: "well_formed []" "well_formed ''0''"
  by (simp_all add: well_formed_def dots_def)

lemma well_formed_snoc:
  assumes "well_formed str" and "c \<noteq> CHR ''-''"
    and "c = CHR ''.'' \<longrightarrow> CHR ''.'' \<notin> set str"
  shows "well_formed (str @ [c])"
proof -
  have "\<not> prefix ''--'' (str @ [c])"
  proof (cases str)
    case Nil
    then show ?thesis by simp
  next
    case (Cons a as)
    show ?thesis
    proof (cases as)
      case Nil
      with Cons assms(2) show ?thesis by simp
    next
      case (Cons b bs)
      with \<open>str = a # as\<close> assms(1) show ?thesis by (simp add: well_formed_def)
    qed
  qed
  moreover have "dots (str @ [c]) \<le> 1"
  proof (cases "c = CHR ''.''")
    case True
    with assms(3) have "filter (\<lambda>c. c = CHR ''.'') str = []"
      by (auto simp: filter_empty_conv)
    with True show ?thesis by (simp add: dots_def)
  next
    case False
    with assms(1) show ?thesis by (simp add: dots_def well_formed_def)
  qed
  ultimately show ?thesis by (simp add: well_formed_def)
qed

lemma well_formed_digit: "d \<in> digit_chars \<Longrightarrow> well_formed [d]"
  by (auto simp: well_formed_def dots_def digit_chars_def)

lemma well_formed_butlast: "well_formed str \<Longrightarrow> well_formed (butlast str)"
proof -
  assume w: "well_formed str"
  have "length (filter (\<lambda>c. c = CHR ''.'') (butlast str))
    \<le> length (filter (\<lambda>c. c = CHR ''.'') str)"
    by (cases str rule: rev_cases) auto
  moreover have "prefix ''--'' (butlast str) \<Longrightarrow> prefix ''--'' str"
    using prefix_order.order_trans prefixeq_butlast by blast
  ultimately show ?thesis using w by (auto simp: well_formed_def dots_def)
qed

lemma well_formed_toggle:
  assumes "well_formed str"
  shows "well_formed (if prefix ''-'' str then drop 1 str else ''-'' @ str)"
proof (cases str)
  case Nil
  then show ?thesis by (simp add: well_formed_def dots_def)
next
  case (Cons a as)
  with assms show ?thesis
    by (cases as) (auto simp: well_formed_def dots_def)
qed

lemma entry_ok_appendNumber:
  "entry_ok s \<Longrightarrow> d \<in> digit_chars \<Longrightarrow> entry_ok (appendNumber [d] s)"
proof -
  assume s: "entry_ok s" and d: "d \<in> digit_chars"
  have nd: "d \<noteq> CHR ''-''" "d \<noteq> CHR ''.''"
    using d by (auto simp: digit_chars_def)
  have "well_formed (currentInput s @ [d])"
    using s nd by (intro well_formed_snoc) (simp_all add: entry_ok_def)
  with s d show ?thesis
    by (simp add: appendNumber_def updateDisplay_def entry_ok_def Let_def well_formed_digit)
qed

lemma entry_ok_appendDecimal: "entry_ok s \<Longrightarrow> entry_ok (appendDecimal s)"
proof -
  assume s: "entry_ok s"
  have a: "well_formed str \<Longrightarrow> CHR ''.'' \<notin> set str \<Longrightarrow> well_formed (str @ ''.'')" for str
    by (rule well_formed_snoc) simp_all
  have b: "well_formed ''0.''"
    by (simp add: well_formed_def dots_def)
  from s a b show ?thesis
    by (auto simp: appendDecimal_def updateDisplay_def entry_ok_def Let_def)
qed

lemma entry_ok_store_result: "entry_ok (store_result r s)"
  by (simp add: store_result_def updateDisplay_def entry_ok_def Let_def well_formed_toString)

lemma entry_ok_clearAll: "entry_ok (clearAll s)"
  by (simp add: clearAll_def updateDisplay_def entry_ok_def)

lemma entry_ok_calculateResult: "entry_ok s \<Longrightarrow> entry_ok (calculateResult s)"
  by (simp add: calculateResult_def Let_def entry_ok_store_result entry_ok_clearAll)

lemma entry_ok_appendOperator: "entry_ok s \<Longrightarrow> entry_ok (appendOperator op s)"
proof -
  assume s: "entry_ok s"
  define s1 where
    "s1 = (if currentInput s \<noteq> [] \<and> previousInput s \<noteq> [] \<and> operator s \<noteq> []
           then calculateResult s else s)"
  have "entry_ok s1"
    using s by (simp add: s1_def entry_ok_calculateResult)
  then show ?thesis
    unfolding appendOperator_def s1_def [symmetric]
    by (simp add: updateDisplay_def entry_ok_def Let_def)
qed

lemma entry_ok_calculateSquare: "entry_ok s \<Longrightarrow> entry_ok (calculateSquare s)"
  by (simp add: calculateSquare_def updateDisplay_def entry_ok_def Let_def
      well_formed_toString)

lemma entry_ok_toggleSign: "entry_ok s \<Longrightarrow> entry_ok (toggleSign s)"
  using well_formed_toggle [of "currentInput s"]
  by (auto simp: toggleSign_def updateDisplay_def entry_ok_def Let_def split: if_splits)

lemma entry_ok_backspace: "entry_ok s \<Longrightarrow> entry_ok (backspace s)"
  using well_formed_butlast [of "currentInput s"]
  by (simp add: backspace_def updateDisplay_def entry_ok_def Let_def)

lemma entry_ok_handle: "entry_ok s \<Longrightarrow> valid_press p \<Longrightarrow> entry_ok (handle p s)"
  by (cases p)
    (simp_all add: entry_ok_appendNumber entry_ok_appendDecimal entry_ok_appendOperator
      entry_ok_calculateResult entry_ok_calculateSquare entry_ok_toggleSign entry_ok_clearAll
      entry_ok_backspace)

lemma entry_ok_run: "entry_ok s \<Longrightarrow> \<forall>p \<in> set ps. valid_press p \<Longrightarrow> entry_ok (run ps s)"
  unfolding run_def
  by (induction ps arbitrary: s) (simp_all add: entry_ok_handle)

lemma entry_ok_initial: "entry_ok initial"
  by (simp add: entry_ok_def initial_def)

section \<open>What \<open>calculateResult\<close> does\<close>

lemma calculateResult_zero_divisor:
  assumes "previousInput s \<noteq> []" and "currentInput s \<noteq> []"
    and "operator s = ''/'' \<or> operator s = ''%''"
    and "strict_eq_zero (parseFloat (currentInput s))"
  shows "calculateResult s =
    s\<lparr>currentInput := [], previousInput := [], operator := [], shouldResetDisplay := False,
      display := ''0'', written := written s @ [''Error'', ''0'']\<rparr>"
  using assms by (auto simp: calculateResult_def clearAll_def updateDisplay_def Let_def)

lemma calculateResult_computed:
  assumes "previousInput s \<noteq> []" and "currentInput s \<noteq> []"
    and "computed (operator s) (parseFloat (previousInput s)) (parseFloat (currentInput s))
         = Some r"
  shows "calculateResult s = store_result r s"
  using assms
  by (auto simp: calculateResult_def computed_def Let_def split: if_splits)

lemma calculateResult_cases:
  "calculateResult s = s
   \<or> calculateResult s = clearAll (updateDisplay ''Error'' s)
   \<or> (\<exists>r. calculateResult s = store_result r s)"
  unfolding calculateResult_def Let_def by auto

lemma calculateResult_idem: "calculateResult (calculateResult s) = calculateResult s"
proof -
  have a: "calculateResult (clearAll t) = clearAll t" for t
    by (simp add: calculateResult_def clearAll_def updateDisplay_def)
  have b: "calculateResult (store_result r t) = store_result r t" for r t
    by (simp add: calculateResult_def store_result_def updateDisplay_def Let_def)
  from calculateResult_cases [of s] show ?thesis
    using a b by (elim disjE exE) simp_all
qed

lemma operator_ok_calculateResult: "operator_ok s \<Longrightarrow> operator_ok (calculateResult s)"
  using calculateResult_cases [of s]
  by (auto simp: operator_ok_def clearAll_def store_result_def updateDisplay_def Let_def)

lemma operator_ok_appendOperator: "operator_ok s \<Longrightarrow> operator_ok (appendOperator op s)"
proof -
  assume s: "operator_ok s"
  define s1 where
    "s1 = (if currentInput s \<noteq> [] \<and> previousInput s \<noteq> [] \<and> operator s \<noteq> []
           then calculateResult s else s)"
  have "operator_ok s1"
    using s by (simp add: s1_def operator_ok_calculateResult)
  then show ?thesis
    unfolding appendOperator_def s1_def [symmetric]
    by (auto simp: updateDisplay_def operator_ok_def Let_def)
qed

lemma operator_ok_handle: "operator_ok s \<Longrightarrow> operator_ok (handle p s)"
proof (cases p)
  case (Operator op)
  assume "operator_ok s"
  then show ?thesis using Operator by (simp add: operator_ok_appendOperator)
next
  case Equals
  assume "operator_ok s"
  then show ?thesis using Equals by (simp add: operator_ok_calculateResult)
qed (simp_all add: operator_ok_def appendNumber_def appendDecimal_def calculateSquare_def
      toggleSign_def clearAll_def backspace_def updateDisplay_def Let_def)

lemma operator_ok_run: "operator_ok s \<Longrightarrow> operator_ok (run ps s)"
  unfolding run_def
  by (induction ps arbitrary: s) (simp_all add: operator_ok_handle)

lemma no_operation_then_operator:
  assumes "currentInput s \<noteq> []" and "previousInput s = []" and "operator s = []"
  shows "appendOperator op s =
      s\<lparr>previousInput := currentInput s, operator := op, currentInput := [],
        shouldResetDisplay := True, display := currentInput s,
        written := written s @ [currentInput s]\<rparr>"
    and "calculateResult (appendOperator op s) = appendOperator op s"
  using assms
  by (simp_all add: appendOperator_def calculateResult_def updateDisplay_def Let_def)

section \<open>Backspace\<close>

lemma backspace_unfold:
  "backspace s =
     (if currentInput s = [] then s
      else if butlast (currentInput s) = [] \<or> butlast (currentInput s) = ''-''
      then s\<lparr>currentInput := [], display := ''0'', written := written s @ [''0'']\<rparr>
      else s\<lparr>currentInput := butlast (currentInput s), display := butlast (currentInput s),
             written := written s @ [butlast (currentInput s)]\<rparr>)"
  by (simp add: backspace_def updateDisplay_def Let_def)

lemma key_backspace: "handleKeyboardInput ''Backspace'' s = backspace s"
  by (simp add: handleKeyboardInput_def)

text \<open>The keys of the keyboard start the same operations as the presses.\<close>

lemma key_digit: "d \<in> digit_chars \<Longrightarrow> handleKeyboardInput [d] s = handle (Digit d) s"
  by (auto simp: handleKeyboardInput_def digit_chars_def)

lemma key_operator:
  "handleKeyboardInput ''+'' s = handle (Operator ''+'') s"
  "handleKeyboardInput ''-'' s = handle (Operator ''-'') s"
  "handleKeyboardInput ''*'' s = handle (Operator ''*'') s"
  "handleKeyboardInput ''/'' s = handle (Operator ''/'') s"
  "handleKeyboardInput ''%'' s = handle (Operator ''%'') s"
  by (simp_all add: handleKeyboardInput_def)

lemma key_others:
  "handleKeyboardInput ''.'' s = handle Decimal s"
  "handleKeyboardInput ''='' s = handle Equals s"
  "handleKeyboardInput ''Enter'' s = handle Equals s"
  "handleKeyboardInput ''Escape'' s = handle Clear s"
  "handleKeyboardInput ''Backspace'' s = handle Backspace s"
  by (simp_all add: handleKeyboardInput_def)

lemma backspace_flag: "shouldResetDisplay (backspace s) = shouldResetDisplay s"
  by (simp add: backspace_def updateDisplay_def Let_def)

lemma backspace_ignores_flag:
  "backspace (s\<lparr>shouldResetDisplay := b\<rparr>) = (backspace s)\<lparr>shouldResetDisplay := b\<rparr>"
  by (simp add: backspace_def updateDisplay_def Let_def)

lemma digit_after_reset:
  "shouldResetDisplay s \<Longrightarrow>
   currentInput (appendNumber [d] s) = [d] \<and> \<not> shouldResetDisplay (appendNumber [d] s)"
  by (simp add: appendNumber_def updateDisplay_def Let_def)

section \<open>Evaluations\<close>

lemma parse_zero: "strict_eq_zero (parseFloat ''0'')" "strict_eq_zero (parseFloat ''0.0'')"
  by code_simp+




lemma product_twelve_three:
  "computed ''*'' (parseFloat ''12'') (parseFloat ''3'') = Some (Fin False 36)"
  by code_simp

lemma round8_36: "toString (round8 (Fin False 36)) = ''36''"
  by code_simp

lemma run_sample: "run sample_presses initial =
  initial\<lparr>currentInput := ''-3'', shouldResetDisplay := True, display := ''-3'',
    written := [''1'', ''1.'', ''1.5'', ''-1.5'', ''-1.5'', ''2'', ''-3'']\<rparr>"
  by code_simp

lemma sample_valid: "\<forall>p \<in> set sample_presses. valid_press p"
  by (simp add: sample_presses_def digit_chars_def)

section \<open>The claims\<close>

text \<open>
  Claim C1.  When the stored operand, the entry and the operator are all present, the
  operator is \<open>/\<close> or \<open>%\<close> and the entry parses to zero, \<open>calculateResult\<close> writes
  \<open>Error\<close> to the display and puts the four variables back to their initial values:
  entry, operand and operator empty, reset flag false.  No result is stored or shown;
  the only other write is the \<open>0\<close> of \<open>clearAll\<close>.
\<close>

theorem evaluate_division_by_zero:
  "previousInput s \<noteq> [] \<Longrightarrow> currentInput s \<noteq> [] \<Longrightarrow>
   operator s = ''/'' \<or> operator s = ''%'' \<Longrightarrow>
   strict_eq_zero (parseFloat (currentInput s)) \<Longrightarrow>
   calculateResult s =
     s\<lparr>currentInput := [], previousInput := [], operator := [], shouldResetDisplay := False,
       display := ''0'', written := written s @ [''Error'', ''0'']\<rparr>"
  by (rule calculateResult_zero_divisor)

theorem evaluate_division_by_zero_witness:
  "previousInput five_by_zero \<noteq> [] \<and> currentInput five_by_zero \<noteq> []
   \<and> operator five_by_zero = ''/''
   \<and> strict_eq_zero (parseFloat (currentInput five_by_zero))
   \<and> calculateResult five_by_zero = initial\<lparr>display := ''0'', written := [''Error'', ''0'']\<rparr>"
  using evaluate_division_by_zero [of five_by_zero] parse_zero(1)
  by (simp add: five_by_zero_def initial_def)

text \<open>
  Claim C2, as stated, fails.  With \<open>5\<close> entered and nothing pending, pressing \<open>+\<close> and
  then equals leaves the entry empty: \<open>calculateResult\<close> returns at its first test,
  so the entry is not the stored operand \<open>5\<close>, and it writes nothing.
\<close>

theorem operator_then_equals_counterexample:
  "currentInput five_entered \<noteq> [] \<and> previousInput five_entered = []
   \<and> operator five_entered = []
   \<and> currentInput (calculateResult (appendOperator ''+'' five_entered))
     \<noteq> previousInput (appendOperator ''+'' five_entered)
   \<and> previousInput (appendOperator ''+'' five_entered) = ''5''
   \<and> currentInput (calculateResult (appendOperator ''+'' five_entered)) = []
   \<and> written (calculateResult (appendOperator ''+'' five_entered))
     = written (appendOperator ''+'' five_entered)"
  by (simp add: five_entered_def appendOperator_def calculateResult_def updateDisplay_def
      initial_def Let_def)

text \<open>
  Claim C2, amended.  For every state with a non-empty entry and no operation in
  flight, \<open>appendOperator('+')\<close> moves the entry to the stored operand, stores \<open>+\<close>,
  empties the entry, sets the reset flag and shows the operand; \<open>calculateResult\<close>
  called next changes nothing and writes nothing.
\<close>

theorem operator_then_equals_no_op:
  "currentInput s \<noteq> [] \<Longrightarrow> previousInput s = [] \<Longrightarrow> operator s = [] \<Longrightarrow>
   appendOperator ''+'' s =
     s\<lparr>previousInput := currentInput s, operator := ''+'', currentInput := [],
       shouldResetDisplay := True, display := currentInput s,
       written := written s @ [currentInput s]\<rparr>
   \<and> calculateResult (appendOperator ''+'' s) = appendOperator ''+'' s"
  using no_operation_then_operator [of s "''+''"] by simp

theorem operator_then_equals_no_op_witness:
  "currentInput five_entered \<noteq> [] \<and> previousInput five_entered = []
   \<and> operator five_entered = []
   \<and> calculateResult (appendOperator ''+'' five_entered) = appendOperator ''+'' five_entered
   \<and> currentInput (calculateResult (appendOperator ''+'' five_entered)) = []
   \<and> previousInput (calculateResult (appendOperator ''+'' five_entered)) = ''5''"
proof -
  have h: "currentInput five_entered \<noteq> []" "previousInput five_entered = []"
    "operator five_entered = []" "currentInput five_entered = ''5''"
    by (simp_all add: five_entered_def initial_def)
  have t: "appendOperator ''+'' five_entered =
      five_entered\<lparr>previousInput := currentInput five_entered, operator := ''+'',
        currentInput := [], shouldResetDisplay := True, display := currentInput five_entered,
        written := written five_entered @ [currentInput five_entered]\<rparr>"
    using operator_then_equals_no_op [OF h(1-3)] by (rule conjunct1)
  have u: "calculateResult (appendOperator ''+'' five_entered) = appendOperator ''+'' five_entered"
    using operator_then_equals_no_op [OF h(1-3)] by (rule conjunct2)
  show ?thesis
    unfolding u using h by (simp add: t)
qed



text \<open>
  Claim C4.  For a digit \<open>d\<close>, \<open>appendNumber\<close> first clears the entry and the reset
  flag when the flag is set; then a \<open>0\<close> typed onto the entry \<open>0\<close> changes nothing more,
  another digit typed onto \<open>0\<close> replaces it, and in every other case the digit is
  appended; except in the first case the new entry is written to the display.  The
  digits 0, 0, 5 typed into the initial state leave the entry \<open>5\<close>.
\<close>

theorem appendNumber_digit:
  "d \<in> digit_chars \<Longrightarrow>
   appendNumber [d] s =
     (let s1 = (if shouldResetDisplay s
                then s\<lparr>currentInput := [], shouldResetDisplay := False\<rparr> else s)
      in if currentInput s1 = ''0'' \<and> d = CHR ''0'' then s1
         else if currentInput s1 = ''0''
         then s1\<lparr>currentInput := [d], display := [d], written := written s @ [[d]]\<rparr>
         else s1\<lparr>currentInput := currentInput s1 @ [d],
                 display := currentInput s1 @ [d],
                 written := written s @ [currentInput s1 @ [d]]\<rparr>)
   \<and> currentInput (appendNumber ''5'' (appendNumber ''0'' (appendNumber ''0'' initial))) = ''5''"
  by (simp add: appendNumber_def updateDisplay_def initial_def Let_def)

theorem appendNumber_digit_witness:
  "CHR ''7'' \<in> digit_chars
   \<and> appendNumber ''7'' (initial\<lparr>currentInput := ''36'', shouldResetDisplay := True\<rparr>)
     = initial\<lparr>currentInput := ''7'', display := ''7'', written := [''7'']\<rparr>
   \<and> appendNumber ''7'' (initial\<lparr>currentInput := ''0''\<rparr>)
     = initial\<lparr>currentInput := ''7'', display := ''7'', written := [''7'']\<rparr>
   \<and> appendNumber ''7'' (initial\<lparr>currentInput := ''12''\<rparr>)
     = initial\<lparr>currentInput := ''127'', display := ''127'', written := [''127'']\<rparr>"
  using appendNumber_digit
      [of "CHR ''7''" "initial\<lparr>currentInput := ''36'', shouldResetDisplay := True\<rparr>"]
    appendNumber_digit [of "CHR ''7''" "initial\<lparr>currentInput := ''0''\<rparr>"]
    appendNumber_digit [of "CHR ''7''" "initial\<lparr>currentInput := ''12''\<rparr>"]
  by (simp add: digit_chars_def initial_def Let_def)

text \<open>
  Claim C5.  After any sequence of the eight operations from the initial state, the
  digit presses carrying digits, the entry has at most one decimal point and at most
  one leading minus sign.
\<close>

theorem entry_well_formed:
  "\<forall>p \<in> set ps. valid_press p \<Longrightarrow>
   dots (currentInput (run ps initial)) \<le> 1
   \<and> leading_minuses (currentInput (run ps initial)) \<le> 1"
proof -
  assume "\<forall>p \<in> set ps. valid_press p"
  with entry_ok_initial have "entry_ok (run ps initial)"
    by (rule entry_ok_run)
  then have "well_formed (currentInput (run ps initial))"
    by (simp add: entry_ok_def)
  then show ?thesis
    unfolding well_formed_def leading_minuses_prefix .
qed

theorem entry_well_formed_witness:
  "list_all valid_press sample_presses
   \<and> currentInput (run sample_presses initial) = ''-3''
   \<and> dots (currentInput (run sample_presses initial)) \<le> 1
   \<and> leading_minuses (currentInput (run sample_presses initial)) \<le> 1"
  using entry_well_formed [of sample_presses] sample_valid
  by (simp add: run_sample list_all_iff)

text \<open>
  Claim C6.  After any sequence of operations from the initial state the operator is
  non-empty only if the stored operand is non-empty, and every single operation keeps
  this property, from any state that has it.
\<close>

theorem operator_needs_operand:
  "operator_ok (run ps initial) \<and> (operator_ok s \<longrightarrow> operator_ok (handle p s))"
proof -
  have "operator_ok initial"
    by (simp add: operator_ok_def initial_def)
  then show ?thesis
    by (simp add: operator_ok_run operator_ok_handle)
qed

theorem operator_needs_operand_witness:
  "operator_ok (run [Digit CHR ''5'', Operator ''+''] initial)
   \<and> operator (run [Digit CHR ''5'', Operator ''+''] initial) = ''+''
   \<and> previousInput (run [Digit CHR ''5'', Operator ''+''] initial) = ''5''
   \<and> operator_ok five_by_zero
   \<and> operator_ok (handle Equals five_by_zero)"
proof -
  have "run [Digit CHR ''5'', Operator ''+''] initial =
    initial\<lparr>previousInput := ''5'', operator := ''+'', shouldResetDisplay := True,
      display := ''5'', written := [''5'', ''5'']\<rparr>"
    by (simp add: run_def appendNumber_def appendOperator_def updateDisplay_def initial_def
        Let_def)
  then show ?thesis
    using operator_needs_operand [of "[Digit CHR ''5'', Operator ''+'']" five_by_zero Equals]
    by (simp add: operator_ok_def five_by_zero_def initial_def)
qed

text \<open>
  Claim C7.  From every state, a second call of \<open>calculateResult\<close> right after the
  first changes no variable and writes nothing.  Whenever the first call changed
  anything, it left the operator empty.
\<close>

theorem evaluate_twice:
  "calculateResult (calculateResult s) = calculateResult s
   \<and> (calculateResult s \<noteq> s \<longrightarrow> operator (calculateResult s) = [])"
proof -
  have "calculateResult s \<noteq> s \<longrightarrow> operator (calculateResult s) = []"
    using calculateResult_cases [of s]
    by (auto simp: clearAll_def store_result_def updateDisplay_def Let_def)
  then show ?thesis
    by (simp add: calculateResult_idem)
qed

theorem evaluate_twice_witness:
  "calculateResult twelve_times_three
     = initial\<lparr>currentInput := ''36'', shouldResetDisplay := True, display := ''36'',
         written := [''36'']\<rparr>
   \<and> calculateResult (calculateResult twelve_times_three) = calculateResult twelve_times_three
   \<and> calculateResult twelve_times_three \<noteq> twelve_times_three
   \<and> operator (calculateResult twelve_times_three) = []"
proof -
  have "calculateResult twelve_times_three = store_result (Fin False 36) twelve_times_three"
    by (rule calculateResult_computed)
      (simp_all add: twelve_times_three_def initial_def product_twelve_three)
  then have "calculateResult twelve_times_three
     = initial\<lparr>currentInput := ''36'', shouldResetDisplay := True, display := ''36'',
         written := [''36'']\<rparr>"
    by (simp add: store_result_def updateDisplay_def Let_def round8_36 twelve_times_three_def
        initial_def)
  then show ?thesis
    using evaluate_twice [of twelve_times_three]
    by (simp add: twelve_times_three_def initial_def)
qed

text \<open>
  Claim C8.  Backspace changes nothing when the entry is empty.  Otherwise it drops
  the last character of the entry; when what is left is empty or just \<open>-\<close> it shows
  \<open>0\<close> and empties the entry, else it shows the shortened entry.  The entry \<open>12\<close>
  becomes \<open>1\<close>, and the entry \<open>1\<close> becomes empty with \<open>0\<close> on the display.  The
  \<open>Backspace\<close> key does exactly this.
\<close>

theorem backspace_behaviour:
  "backspace s =
     (if currentInput s = [] then s
      else if butlast (currentInput s) = [] \<or> butlast (currentInput s) = ''-''
      then s\<lparr>currentInput := [], display := ''0'', written := written s @ [''0'']\<rparr>
      else s\<lparr>currentInput := butlast (currentInput s), display := butlast (currentInput s),
             written := written s @ [butlast (currentInput s)]\<rparr>)
   \<and> handleKeyboardInput ''Backspace'' s = backspace s
   \<and> backspace (initial\<lparr>currentInput := ''12''\<rparr>)
       = initial\<lparr>currentInput := ''1'', display := ''1'', written := [''1'']\<rparr>
   \<and> backspace (initial\<lparr>currentInput := ''1''\<rparr>)
       = initial\<lparr>currentInput := [], display := ''0'', written := [''0'']\<rparr>
   \<and> backspace (initial\<lparr>currentInput := []\<rparr>) = initial\<lparr>currentInput := []\<rparr>"
  using backspace_unfold [of s] key_backspace [of s]
  by (simp add: backspace_def updateDisplay_def initial_def)

theorem backspace_behaviour_witness:
  "currentInput (initial\<lparr>currentInput := ''-7''\<rparr>) \<noteq> []
   \<and> butlast (currentInput (initial\<lparr>currentInput := ''-7''\<rparr>)) = ''-''
   \<and> backspace (initial\<lparr>currentInput := ''-7''\<rparr>)
       = initial\<lparr>currentInput := [], display := ''0'', written := [''0'']\<rparr>
   \<and> handleKeyboardInput ''Backspace'' (initial\<lparr>currentInput := ''-7''\<rparr>)
       = initial\<lparr>currentInput := [], display := ''0'', written := [''0'']\<rparr>"
  using backspace_behaviour [of "initial\<lparr>currentInput := ''-7''\<rparr>"]
  by (simp add: initial_def)

text \<open>
  Claim C9.  On a division or a remainder by zero \<open>calculateResult\<close> is
  \<open>updateDisplay('Error')\<close> followed at once by \<open>clearAll()\<close>: the two values written
  are \<open>Error\<close> and then \<open>0\<close>, so the last value written, and the content of the
  display afterwards, is \<open>0\<close>.
\<close>

theorem division_by_zero_display:
  "previousInput s \<noteq> [] \<Longrightarrow> currentInput s \<noteq> [] \<Longrightarrow>
   operator s = ''/'' \<or> operator s = ''%'' \<Longrightarrow>
   strict_eq_zero (parseFloat (currentInput s)) \<Longrightarrow>
   calculateResult s = clearAll (updateDisplay ''Error'' s)
   \<and> written (calculateResult s) = written s @ [''Error'', ''0'']
   \<and> last (written (calculateResult s)) = ''0''
   \<and> display (calculateResult s) = ''0''"
  using calculateResult_zero_divisor [of s]
  by (simp add: clearAll_def updateDisplay_def)

theorem division_by_zero_display_witness:
  "previousInput seven_mod_zero \<noteq> [] \<and> currentInput seven_mod_zero \<noteq> []
   \<and> operator seven_mod_zero = ''%''
   \<and> strict_eq_zero (parseFloat (currentInput seven_mod_zero))
   \<and> written (calculateResult seven_mod_zero) = [''Error'', ''0'']
   \<and> display (calculateResult seven_mod_zero) = ''0''"
  using division_by_zero_display [of seven_mod_zero] parse_zero(2)
  by (simp add: seven_mod_zero_def initial_def clearAll_def updateDisplay_def)

text \<open>
  Claim C10.  Backspace neither reads nor changes the reset flag.  After
  \<open>calculateResult\<close> has stored a result, the entry is the result string and the flag
  is set; a backspace then leaves the result string without its last character as
  the entry (the empty entry when only \<open>-\<close> or nothing would be left) and the flag
  still set; a digit typed next becomes the whole entry and clears the flag.
\<close>

theorem backspace_keeps_reset_flag:
  "shouldResetDisplay (backspace s) = shouldResetDisplay s
   \<and> backspace (s\<lparr>shouldResetDisplay := b\<rparr>) = (backspace s)\<lparr>shouldResetDisplay := b\<rparr>
   \<and> (previousInput s \<noteq> [] \<longrightarrow> currentInput s \<noteq> [] \<longrightarrow>
      computed (operator s) (parseFloat (previousInput s)) (parseFloat (currentInput s))
        = Some r \<longrightarrow>
      d \<in> digit_chars \<longrightarrow>
        currentInput (calculateResult s) = toString (round8 r)
        \<and> shouldResetDisplay (calculateResult s)
        \<and> currentInput (backspace (calculateResult s))
            = (if butlast (toString (round8 r)) = [] \<or> butlast (toString (round8 r)) = ''-''
               then [] else butlast (toString (round8 r)))
        \<and> shouldResetDisplay (backspace (calculateResult s))
        \<and> currentInput (appendNumber [d] (backspace (calculateResult s))) = [d]
        \<and> \<not> shouldResetDisplay (appendNumber [d] (backspace (calculateResult s))))"
proof -
  have "currentInput (calculateResult s) = toString (round8 r)
        \<and> shouldResetDisplay (calculateResult s)
        \<and> currentInput (backspace (calculateResult s))
            = (if butlast (toString (round8 r)) = [] \<or> butlast (toString (round8 r)) = ''-''
               then [] else butlast (toString (round8 r)))
        \<and> shouldResetDisplay (backspace (calculateResult s))
        \<and> currentInput (appendNumber [d] (backspace (calculateResult s))) = [d]
        \<and> \<not> shouldResetDisplay (appendNumber [d] (backspace (calculateResult s)))"
    if h: "previousInput s \<noteq> []" "currentInput s \<noteq> []"
      "computed (operator s) (parseFloat (previousInput s)) (parseFloat (currentInput s))
       = Some r"
  proof -
    have c: "calculateResult s = store_result r s"
      using h by (rule calculateResult_computed)
    have e: "currentInput (store_result r s) = toString (round8 r)"
      and f: "shouldResetDisplay (store_result r s)"
      by (simp_all add: store_result_def updateDisplay_def Let_def)
    have g: "shouldResetDisplay (backspace (store_result r s))"
      using f by (simp add: backspace_flag)
    show ?thesis
      unfolding c using e f g digit_after_reset [OF g, of d]
      by (simp add: backspace_unfold)
  qed
  then show ?thesis
    by (simp add: backspace_flag backspace_ignores_flag)
qed

theorem backspace_keeps_reset_flag_witness:
  "previousInput twelve_times_three \<noteq> [] \<and> currentInput twelve_times_three \<noteq> []
   \<and> computed (operator twelve_times_three) (parseFloat (previousInput twelve_times_three))
        (parseFloat (currentInput twelve_times_three)) = Some (Fin False 36)
   \<and> CHR ''5'' \<in> digit_chars
   \<and> currentInput (calculateResult twelve_times_three) = ''36''
   \<and> currentInput (backspace (calculateResult twelve_times_three)) = ''3''
   \<and> shouldResetDisplay (backspace (calculateResult twelve_times_three))
   \<and> currentInput (appendNumber ''5'' (backspace (calculateResult twelve_times_three))) = ''5''"
  using backspace_keeps_reset_flag [of twelve_times_three False "Fin False 36" "CHR ''5''"]
    product_twelve_three round8_36
  by (simp add: twelve_times_three_def initial_def digit_chars_def)

end
